theory Spec2Isabelle
  imports Complex_Main "HOL-Library.AList"
begin

text \<open>
  The tabular analysis engine of the repository (TypeScript), embedded as HOL functions:
  the statistical primitives of \<^verbatim>\<open>utils.ts\<close>, the anomaly detectors, the forecaster,
  the correlation matrix and the query router \<open>analyze\<close> with its anomaly and forecast
  handlers. Each definition follows the source function of the same name, branch by
  branch; a thrown exception is a value of a sum type, a loop is a fold or a map over
  the indices it visits, and a mutated \<^verbatim>\<open>Map\<close> or object is the association list or
  map it holds after each step.
\<close>

section \<open>Numbers and arrays\<close>

text \<open>
  The analysis engine computes on JavaScript numbers. A finite number is modelled by the
  real it denotes, and arithmetic is exact: rounding to binary64 and overflow to
  \<open>Infinity\<close> are outside the model. \<open>NaN\<close> and the infinities appear only where a
  cell is coerced (\<open>jsnum\<close> below); every series the analyzers compute on has passed
  the filter of \<open>extractNumericValues\<close> and holds finite numbers only.

  Reading an array outside its bounds gives \<open>undefined\<close> in JavaScript; \<open>item\<close> makes
  that case explicit.
\<close>

definition item :: "'a list \<Rightarrow> int \<Rightarrow> 'a option" where
  "item xs i = (if 0 \<le> i \<and> i < int (length xs) then Some (xs ! nat i) else None)"

subsection \<open>utils: mean, median, standardDeviation, percentile, quartiles, zScore\<close>

text \<open>\<^verbatim>\<open>values.reduce((sum, v) => sum + v, 0) / values.length\<close>, 0 for the empty array.\<close>

definition mean :: "real list \<Rightarrow> real" where
  "mean values =
     (if length values = 0 then 0
      else foldl (\<lambda>sum v. sum + v) 0 values / real (length values))"


definition standardDeviation :: "real list \<Rightarrow> real" where
  "standardDeviation values =
     (if length values < 2 then 0
      else
        let avg = mean values;
            squareDiffs = map (\<lambda>v. (v - avg) ^ 2) values
        in sqrt (mean squareDiffs))"

text \<open>
  \<open>percentile\<close> interpolates between \<^verbatim>\<open>sorted[lower]\<close> and \<^verbatim>\<open>sorted[upper]\<close>.
  For \<open>p\<close> outside \<open>[0, 100]\<close> an index leaves the array and the JavaScript result is
  \<open>undefined\<close> or \<open>NaN\<close>: the model returns \<open>None\<close> there.
\<close>

definition percentile :: "real list \<Rightarrow> real \<Rightarrow> real option" where
  "percentile values p =
     (if length values = 0 then Some 0
      else
        let sorted = sort values;
            index = (p / 100) * (real (length sorted) - 1);
            lower = \<lfloor>index\<rfloor>;
            upper = \<lceil>index\<rceil>
        in if lower = upper then item sorted lower
           else (case (item sorted lower, item sorted upper) of
                   (Some lo, Some up) \<Rightarrow>
                     Some (lo * (real_of_int upper - index) + up * (index - real_of_int lower))
                 | _ \<Rightarrow> None))"

record Quartiles =
  q1 :: "real option"
  q2 :: "real option"
  q3 :: "real option"

definition quartiles :: "real list \<Rightarrow> Quartiles" where
  "quartiles values =
     \<lparr>q1 = percentile values 25, q2 = percentile values 50, q3 = percentile values 75\<rparr>"

definition zScore :: "real \<Rightarrow> real \<Rightarrow> real \<Rightarrow> real" where
  "zScore v avg stdDev = (if stdDev = 0 then 0 else (v - avg) / stdDev)"

subsection \<open>utils: linearRegression, movingAverage, exponentialSmoothing\<close>

record Regression =
  slope :: real
  intercept :: real
  r2 :: real

text \<open>
  The accumulating loops of \<open>linearRegression\<close> are sums over the indices
  \<open>0..<n\<close>; \<^verbatim>\<open>values[0] || 0\<close> is the first value, or 0 for the empty array.
\<close>

definition linearRegression :: "real list \<Rightarrow> Regression" where
  "linearRegression values =
     (let n = length values
      in if n < 2
         then \<lparr>slope = 0, intercept = (case values of [] \<Rightarrow> 0 | v # _ \<Rightarrow> v), r2 = 0\<rparr>
         else
           let xMean = (real n - 1) / 2;
               yMean = mean values;
               numerator = (\<Sum>i\<leftarrow>[0..<n]. (real i - xMean) * (values ! i - yMean));
               denominator = (\<Sum>i\<leftarrow>[0..<n]. (real i - xMean) * (real i - xMean));
               ssTotal = (\<Sum>i\<leftarrow>[0..<n]. (values ! i - yMean) * (values ! i - yMean));
               sl = (if denominator \<noteq> 0 then numerator / denominator else 0);
               ic = yMean - sl * xMean;
               ssResidual = (\<Sum>i\<leftarrow>[0..<n]. (values ! i - (sl * real i + ic)) ^ 2);
               r = (if ssTotal \<noteq> 0 then 1 - ssResidual / ssTotal else 0)
           in \<lparr>slope = sl, intercept = ic, r2 = r\<rparr>)"

definition movingAverage :: "real list \<Rightarrow> nat \<Rightarrow> real list" where
  "movingAverage values window =
     (if length values < window then values
      else map (\<lambda>i. mean (take window (drop i values))) [0..<length values - window + 1])"

fun smoothFrom :: "real \<Rightarrow> real \<Rightarrow> real list \<Rightarrow> real list" where
  "smoothFrom alpha prev [] = []"
| "smoothFrom alpha prev (v # vs) =
     (let s = alpha * v + (1 - alpha) * prev in s # smoothFrom alpha s vs)"

definition exponentialSmoothing :: "real list \<Rightarrow> real \<Rightarrow> real list" where
  "exponentialSmoothing values alpha =
     (case values of [] \<Rightarrow> [] | v # vs \<Rightarrow> v # smoothFrom alpha v vs)"

subsection \<open>Cells, rows and coercion to numbers\<close>

text \<open>
  A row is a \<^verbatim>\<open>Record<string, unknown>\<close>. Its cells are the scalars of the data
  model: a number (possibly \<open>NaN\<close> or infinite), a string, a boolean, \<open>null\<close>, or
  nothing at all (\<open>undefined\<close>, also what reading an absent key gives). A row is the
  list of its own properties in the order \<^verbatim>\<open>Object.keys\<close> reports them, with
  distinct keys, none of them the name of a property that every object inherits. A
  string is a list of code units below 256.
\<close>

datatype jsnum = Finite real | NaN | PosInfinity | NegInfinity

datatype cell = CNumber jsnum | CString string | CBoolean bool | CNull | CUndefined

type_synonym DataRow = "(string \<times> cell) list"

definition cellOf :: "DataRow \<Rightarrow> string \<Rightarrow> cell" where
  "cellOf row column = (case map_of row column of Some v \<Rightarrow> v | None \<Rightarrow> CUndefined)"

definition isNaN :: "jsnum \<Rightarrow> bool" where
  "isNaN v = (v = NaN)"

definition isFinite :: "jsnum \<Rightarrow> bool" where
  "isFinite v = (case v of Finite _ \<Rightarrow> True | _ \<Rightarrow> False)"

text \<open>
  \<open>Number(v)\<close> on a string follows the language's \<open>StringToNumber\<close>: white space is
  trimmed, the empty string is 0, and the rest must be a decimal literal (optional sign,
  digits, fraction, exponent, or \<open>Infinity\<close>) or an unsigned binary, octal or
  hexadecimal integer; anything else is \<open>NaN\<close>. A literal whose value rounds beyond
  the largest binary64 number is infinite.
\<close>

definition isWhiteSpace :: "char \<Rightarrow> bool" where
  "isWhiteSpace c =
     (c \<in> set [CHR 0x09, CHR 0x0A, CHR 0x0B, CHR 0x0C, CHR 0x0D, CHR '' '', CHR 0xA0])"

definition isDigit :: "char \<Rightarrow> bool" where
  "isDigit c = (c \<in> set ''0123456789'')"

definition trim :: "string \<Rightarrow> string" where
  "trim s = rev (dropWhile isWhiteSpace (rev (dropWhile isWhiteSpace s)))"

definition digitValue :: "char \<Rightarrow> nat" where
  "digitValue c =
     (if isDigit c then of_char c - 48
      else if c \<in> set ''abcdef'' then of_char c - 87
      else if c \<in> set ''ABCDEF'' then of_char c - 55
      else 0)"

definition digitsValue :: "nat \<Rightarrow> string \<Rightarrow> nat" where
  "digitsValue base ds = foldl (\<lambda>acc c. acc * base + digitValue c) 0 ds"

definition overflowBound :: real where
  "overflowBound = 2 ^ 1024 - 2 ^ 970"

definition roundMV :: "bool \<Rightarrow> real \<Rightarrow> jsnum" where
  "roundMV negative mv =
     (if mv \<ge> overflowBound then (if negative then NegInfinity else PosInfinity)
      else Finite (if negative then - mv else mv))"

definition nonDecimalLiteral :: "string \<Rightarrow> jsnum option" where
  "nonDecimalLiteral t =
     (let pre = take 2 t; ds = drop 2 t;
          base = (if pre \<in> set [''0x'', ''0X''] then 16
                  else if pre \<in> set [''0o'', ''0O''] then 8
                  else if pre \<in> set [''0b'', ''0B''] then 2 else (0::nat))
      in if base = 0 \<or> ds = [] then None
         else if list_all (\<lambda>c. (isDigit c \<or> c \<in> set ''abcdefABCDEF'') \<and> digitValue c < base) ds
           then Some (roundMV False (real (digitsValue base ds)))
         else None)"

definition exponentPart :: "string \<Rightarrow> (bool \<times> nat) option" where
  "exponentPart r =
     (case r of
        [] \<Rightarrow> Some (False, 0)
      | c # r' \<Rightarrow>
          if c \<in> set ''eE'' then
            (let neg = (r' \<noteq> [] \<and> hd r' = CHR ''-'');
                 ds = (if r' \<noteq> [] \<and> hd r' \<in> set ''+-'' then tl r' else r')
             in if ds \<noteq> [] \<and> list_all isDigit ds then Some (neg, digitsValue 10 ds) else None)
          else None)"

definition decimalLiteral :: "string \<Rightarrow> jsnum" where
  "decimalLiteral t =
     (let negative = (t \<noteq> [] \<and> hd t = CHR ''-'');
          u = (if t \<noteq> [] \<and> hd t \<in> set ''+-'' then tl t else t)
      in if u = ''Infinity'' then (if negative then NegInfinity else PosInfinity)
         else
           let intDigits = takeWhile isDigit u;
               r1 = dropWhile isDigit u;
               dot = (r1 \<noteq> [] \<and> hd r1 = CHR ''.'');
               fracDigits = (if dot then takeWhile isDigit (tl r1) else []);
               r2 = (if dot then dropWhile isDigit (tl r1) else r1)
           in if intDigits = [] \<and> fracDigits = [] then NaN
              else (case exponentPart r2 of
                      None \<Rightarrow> NaN
                    | Some (eneg, e) \<Rightarrow>
                        let m = real (digitsValue 10 intDigits)
                                + real (digitsValue 10 fracDigits) / 10 ^ length fracDigits
                        in roundMV negative (if eneg then m / 10 ^ e else m * 10 ^ e)))"

definition StringToNumber :: "string \<Rightarrow> jsnum" where
  "StringToNumber s =
     (let t = trim s
      in if t = [] then Finite 0
         else (case nonDecimalLiteral t of Some v \<Rightarrow> v | None \<Rightarrow> decimalLiteral t))"

fun Number :: "cell \<Rightarrow> jsnum" where
  "Number (CNumber v) = v"
| "Number (CString s) = StringToNumber s"
| "Number (CBoolean b) = Finite (if b then 1 else 0)"
| "Number CNull = Finite 0"
| "Number CUndefined = NaN"

text \<open>The filter keeps finite numbers only; \<open>finiteValue\<close> reads them as reals.\<close>

fun finiteValue :: "jsnum \<Rightarrow> real" where
  "finiteValue (Finite r) = r"
| "finiteValue _ = 0"

definition extractNumericValues :: "DataRow list \<Rightarrow> string \<Rightarrow> real list" where
  "extractNumericValues rows column =
     map finiteValue
       (filter (\<lambda>v. \<not> isNaN v \<and> isFinite v)
          (map (\<lambda>row. Number (cellOf row column)) rows))"

subsection \<open>Rendering numbers\<close>

text \<open>
  \<open>showNat\<close> is the decimal rendering of a count (a template literal on
  \<^verbatim>\<open>array.length\<close>). \<open>toFixed x f\<close> is \<^verbatim>\<open>x.toFixed(f)\<close> as the language defines
  it on the exact value of \<open>x\<close>: the sign, then the integer nearest to \<open>|x| * 10^f\<close>
  (the larger one on a tie) written with \<open>f\<close> decimals. From \<open>10^21\<close> on JavaScript
  switches to exponent notation, which is outside the model.
\<close>

fun showNat :: "nat \<Rightarrow> string" where
  "showNat n =
     (if n < 10 then [char_of (48 + n)]
      else showNat (n div 10) @ [char_of (48 + n mod 10)])"

definition toFixed :: "real \<Rightarrow> nat \<Rightarrow> string" where
  "toFixed x f =
     (let n = nat \<lfloor>\<bar>x\<bar> * 10 ^ f + 1 / 2\<rfloor>;
          ds = showNat n;
          padded = replicate (f + 1 - length ds) (CHR ''0'') @ ds;
          k = length padded - f
      in (if x < 0 then ''-'' else '''') @ take k padded
         @ (if f = 0 then '''' else ''.'' @ drop k padded))"

definition join :: "string \<Rightarrow> string list \<Rightarrow> string" where
  "join sep parts =
     (case parts of [] \<Rightarrow> '''' | p # ps \<Rightarrow> foldl (\<lambda>acc q. acc @ sep @ q) p ps)"

section \<open>Anomaly detection\<close>

datatype AnomalyType = ZScore | IQR | Spike | Drop

record Range =
  range_min :: real
  range_max :: real

record Anomaly =
  rowIndex :: nat
  column :: string
  anomalyValue :: real
  expectedRange :: Range
  score :: real
  anomalyType :: AnomalyType

record AnomalyResult =
  anomalies :: "Anomaly list"
  anomalyScore :: real
  affectedColumns :: "string list"
  explanation :: string

text \<open>
  \<^verbatim>\<open>values.forEach((value, index) => ...)\<close> visits the pairs of
  \<open>enumerate 0 values\<close>; the body of each callback (and of the rolling loop) is a
  function of its own that returns the anomaly it pushes, if any.
\<close>

definition zScoreStep ::
    "string \<Rightarrow> real \<Rightarrow> real \<Rightarrow> real \<Rightarrow> nat \<Rightarrow> real \<Rightarrow> Anomaly list" where
  "zScoreStep columnName threshold avg std index v =
     (let z = zScore v avg std
      in if \<bar>z\<bar> > threshold
         then [\<lparr>rowIndex = index, column = columnName, anomalyValue = v,
                 expectedRange = \<lparr>range_min = avg - 2 * std, range_max = avg + 2 * std\<rparr>,
                 score = min (\<bar>z\<bar> / 5) 1, anomalyType = ZScore\<rparr>]
         else [])"

definition detectZScoreAnomalies :: "real list \<Rightarrow> string \<Rightarrow> real \<Rightarrow> Anomaly list" where
  "detectZScoreAnomalies values columnName threshold =
     (if length values < 10 then []
      else
        let avg = mean values;
            std = standardDeviation values
        in if std = 0 then []
           else concat (map (\<lambda>(index, v). zScoreStep columnName threshold avg std index v)
                  (enumerate 0 values)))"

text \<open>
  A quartile that is not a number would make both comparisons of the loop false, so no
  point would be pushed; on a non-empty series the quartiles are always numbers.
\<close>

definition iqrStep ::
    "string \<Rightarrow> real \<Rightarrow> real \<Rightarrow> real \<Rightarrow> nat \<Rightarrow> real \<Rightarrow> Anomaly list" where
  "iqrStep columnName iqr lowerBound upperBound index v =
     (if v < lowerBound \<or> v > upperBound
      then
        let distance = (if v < lowerBound then lowerBound - v else v - upperBound);
            sc = min (distance / (if iqr \<noteq> 0 then iqr else 1)) 1
        in [\<lparr>rowIndex = index, column = columnName, anomalyValue = v,
              expectedRange = \<lparr>range_min = lowerBound, range_max = upperBound\<rparr>,
              score = sc, anomalyType = IQR\<rparr>]
      else [])"

definition detectIQRAnomalies :: "real list \<Rightarrow> string \<Rightarrow> real \<Rightarrow> Anomaly list" where
  "detectIQRAnomalies values columnName multiplier =
     (if length values < 10 then []
      else
        let q = quartiles values
        in (case (q1 q, q3 q) of
              (Some q1v, Some q3v) \<Rightarrow>
                let iqr = q3v - q1v;
                    lowerBound = q1v - multiplier * iqr;
                    upperBound = q3v + multiplier * iqr
                in concat (map (\<lambda>(index, v). iqrStep columnName iqr lowerBound upperBound index v)
                     (enumerate 0 values))
            | _ \<Rightarrow> []))"

definition rollingStep ::
    "real list \<Rightarrow> string \<Rightarrow> nat \<Rightarrow> real \<Rightarrow> nat \<Rightarrow> Anomaly list" where
  "rollingStep values columnName windowSize threshold i =
     (let window = take windowSize (drop (i - windowSize) values);
          windowMean = mean window;
          windowStd = standardDeviation window
      in if windowStd = 0 then []
         else
           let currentValue = values ! i;
               deviation = \<bar>currentValue - windowMean\<bar> / windowStd
           in if deviation > threshold
              then [\<lparr>rowIndex = i, column = columnName, anomalyValue = currentValue,
                      expectedRange = \<lparr>range_min = windowMean - threshold * windowStd,
                                       range_max = windowMean + threshold * windowStd\<rparr>,
                      score = min (deviation / 5) 1,
                      anomalyType = (if currentValue > windowMean then Spike else Drop)\<rparr>]
              else [])"

definition detectRollingAnomalies ::
    "real list \<Rightarrow> string \<Rightarrow> nat \<Rightarrow> real \<Rightarrow> Anomaly list" where
  "detectRollingAnomalies values columnName windowSize threshold =
     (if length values < windowSize + 2 then []
      else concat (map (rollingStep values columnName windowSize threshold)
             [windowSize..<length values]))"

text \<open>
  The merge keeps one anomaly per \<open>rowIndex\<close> in a \<^verbatim>\<open>Map\<close>: a new key is appended,
  an existing key is overwritten in place when the newcomer scores higher. The final
  \<^verbatim>\<open>sort((a, b) => b.score - a.score)\<close> is a stable sort by descending score.
\<close>

definition mergeAnomaly :: "(nat \<times> Anomaly) list \<Rightarrow> Anomaly \<Rightarrow> (nat \<times> Anomaly) list" where
  "mergeAnomaly uniqueMap anomaly =
     (let key = rowIndex anomaly
      in (case map_of uniqueMap key of
            None \<Rightarrow> AList.update key anomaly uniqueMap
          | Some existing \<Rightarrow>
              if score existing < score anomaly then AList.update key anomaly uniqueMap
              else uniqueMap))"

definition sortByScore :: "Anomaly list \<Rightarrow> Anomaly list" where
  "sortByScore as = sort_key (\<lambda>a. - score a) as"

definition detectColumnAnomalies :: "DataRow list \<Rightarrow> string \<Rightarrow> Anomaly list" where
  "detectColumnAnomalies rows columnName =
     (let values = extractNumericValues rows columnName
      in if length values < 10 then []
         else
           let zScoreAnomalies = detectZScoreAnomalies values columnName 3;
               iqrAnomalies = detectIQRAnomalies values columnName 1.5;
               rollingAnomalies = detectRollingAnomalies values columnName 5 2;
               allAnomalies = zScoreAnomalies @ iqrAnomalies @ rollingAnomalies;
               uniqueMap = foldl mergeAnomaly [] allAnomalies
           in sortByScore (map snd uniqueMap))"

section \<open>Forecasting\<close>

text \<open>
  Reading a property of \<open>undefined\<close> throws a \<open>TypeError\<close>; a function that can
  throw returns \<open>jsError + result\<close>. The number of periods is an integer.
\<close>

datatype jsError = TypeError

record Confidence =
  lower :: real
  upper :: real

record PredictionPoint =
  period :: int
  pointValue :: real
  confidence :: Confidence

record MethodForecast =
  predictions :: "PredictionPoint list"
  trend :: string

datatype ForecastMethod = Linear | Exponential | Rolling | Auto

record ForecastResult = MethodForecast +
  forecastColumn :: string
  forecastMethod :: ForecastMethod
  interpretationText :: string

definition point :: "int \<Rightarrow> real \<Rightarrow> real \<Rightarrow> PredictionPoint" where
  "point i predictedValue halfWidth =
     \<lparr>period = i, pointValue = predictedValue,
      confidence = \<lparr>lower = predictedValue - halfWidth, upper = predictedValue + halfWidth\<rparr>\<rparr>"

text \<open>
  \<open>percentText absolute a b f\<close> renders \<^verbatim>\<open>((a / b) * 100).toFixed(f)\<close>, with
  \<^verbatim>\<open>Math.abs\<close> around the quotient when \<open>absolute\<close>; a zero divisor gives
  \<open>Infinity\<close> or \<open>NaN\<close> in JavaScript.
\<close>

definition percentText :: "bool \<Rightarrow> real \<Rightarrow> real \<Rightarrow> nat \<Rightarrow> string" where
  "percentText absolute a b f =
     (if b = 0
      then (if a = 0 then ''NaN'' else if absolute \<or> a > 0 then ''Infinity'' else ''-Infinity'')
      else toFixed ((if absolute then \<bar>a / b\<bar> else a / b) * 100) f)"

text \<open>
  The three method functions are private to the module and called from \<open>forecast\<close>
  with at least 5 values, so the series, its smoothing and its moving average are
  non-empty where \<open>last\<close> is taken.
\<close>

definition linearForecast :: "real list \<Rightarrow> int \<Rightarrow> MethodForecast" where
  "linearForecast values periods =
     (let reg = linearRegression values;
          std = standardDeviation values;
          confidenceMultiplier = 1.96;
          preds = map (\<lambda>i.
                    let predictedValue =
                          slope reg * (real (length values) + real_of_int i - 1) + intercept reg;
                        uncertainty =
                          std * confidenceMultiplier * sqrt (1 + 1 / real (length values))
                    in point i predictedValue (uncertainty * (1 + real_of_int i * 0.1)))
                  [1..periods];
          tr = (if \<bar>slope reg\<bar> < 0.01 * mean values then ''stable''
                else if slope reg > 0
                  then ''increasing at '' @ percentText False (slope reg) (mean values) 1
                       @ ''% per period''
                else ''decreasing at '' @ percentText True (slope reg) (mean values) 1
                     @ ''% per period'')
      in \<lparr>predictions = preds, trend = tr\<rparr>)"

definition exponentialForecast :: "real list \<Rightarrow> int \<Rightarrow> real \<Rightarrow> jsError + MethodForecast" where
  "exponentialForecast values periods alpha =
     (let smoothed = exponentialSmoothing values alpha;
          lastSmoothed = last smoothed;
          std = standardDeviation values;
          recentSmoothed = drop (length smoothed - min 10 (length smoothed)) smoothed;
          sl = slope (linearRegression recentSmoothed);
          preds = map (\<lambda>i.
                    let predictedValue = lastSmoothed + sl * real_of_int i;
                        uncertainty = std * 1.96 * sqrt (real_of_int i)
                    in point i predictedValue uncertainty)
                  [1..periods]
      in (case (if lastSmoothed \<noteq> 0
                then (case item preds (periods - 1) of
                        None \<Rightarrow> Inl TypeError
                      | Some p \<Rightarrow> Inr (((pointValue p - lastSmoothed) / \<bar>lastSmoothed\<bar>) * 100))
                else Inr 0) of
            Inl e \<Rightarrow> Inl e
          | Inr pctChange \<Rightarrow>
              Inr \<lparr>predictions = preds,
                   trend = (if \<bar>pctChange\<bar> < 5 then ''expected to remain stable''
                            else if pctChange > 0
                              then ''expected to increase by '' @ toFixed pctChange 1 @ ''%''
                            else ''expected to decrease by '' @ toFixed \<bar>pctChange\<bar> 1 @ ''%'')\<rparr>))"

definition rollingForecast ::
    "real list \<Rightarrow> int \<Rightarrow> nat option \<Rightarrow> jsError + MethodForecast" where
  "rollingForecast values periods windowSize =
     (let window = (case windowSize of
                      Some w \<Rightarrow> if w \<noteq> 0 then w else max 3 (length values div 5)
                    | None \<Rightarrow> max 3 (length values div 5));
          ma = movingAverage values window;
          lastMA = last ma;
          std = standardDeviation values;
          sl = slope (linearRegression ma);
          preds = map (\<lambda>i.
                    let predictedValue = lastMA + sl * real_of_int i;
                        uncertainty = std * 1.5 * sqrt (real_of_int i / real window)
                    in point i predictedValue uncertainty)
                  [1..periods]
      in (case (item preds 0, item preds (periods - 1)) of
            (Some first, Some final) \<Rightarrow>
              let firstPred = pointValue first;
                  lastPred = pointValue final;
                  changePct = (if firstPred \<noteq> 0
                               then ((lastPred - firstPred) / \<bar>firstPred\<bar>) * 100 else 0)
              in Inr \<lparr>predictions = preds,
                      trend = (if \<bar>changePct\<bar> < 3 then ''stable outlook''
                               else if changePct > 0
                                 then ''gradual upward trend (+'' @ toFixed changePct 1 @ ''%)''
                               else ''gradual downward trend ('' @ toFixed changePct 1 @ ''%)'')\<rparr>
          | _ \<Rightarrow> Inl TypeError))"

definition methodName :: "ForecastMethod \<Rightarrow> string" where
  "methodName m =
     (case m of Linear \<Rightarrow> ''linear regression'' | Exponential \<Rightarrow> ''exponential smoothing''
      | Rolling \<Rightarrow> ''rolling average'' | Auto \<Rightarrow> ''auto'')"

definition ciText :: "PredictionPoint \<Rightarrow> string" where
  "ciText p =
     toFixed (pointValue p) 2 @ '' (95% CI: '' @ toFixed (lower (confidence p)) 2 @ '' - ''
     @ toFixed (upper (confidence p)) 2 @ '').''"

definition generateForecastInterpretation ::
    "string \<Rightarrow> ForecastMethod \<Rightarrow> PredictionPoint list \<Rightarrow> string \<Rightarrow> real \<Rightarrow> string" where
  "generateForecastInterpretation col m preds tr changeFromCurrent =
     (let parts1 = [''Forecast for \"'' @ col @ ''\" using '' @ methodName m @ '': '' @ tr @ ''.''];
          parts2 = (if length preds > 0
                    then [''Short-term prediction (period 1): '' @ ciText (hd preds)]
                         @ (if length preds > 1
                            then [''Extended prediction (period '' @ showNat (length preds)
                                  @ ''): '' @ ciText (last preds)]
                            else [])
                    else []);
          parts3 = (if \<bar>changeFromCurrent\<bar> > 10
                    then (if changeFromCurrent > 0
                          then [''This represents a significant projected increase of ''
                                @ toFixed changeFromCurrent 1 @ ''% from current levels.'']
                          else [''This represents a significant projected decrease of ''
                                @ toFixed \<bar>changeFromCurrent\<bar> 1 @ ''% from current levels.''])
                    else [''The forecast indicates relatively stable conditions with minimal deviation from current levels.''])
      in join '' '' (parts1 @ parts2 @ parts3))"

definition selectMethod :: "real list \<Rightarrow> ForecastMethod \<Rightarrow> ForecastMethod" where
  "selectMethod values m =
     (if m = Auto
      then
        let r = r2 (linearRegression values);
            cv = standardDeviation values / (if mean values \<noteq> 0 then mean values else 1)
        in if r > 0.7 then Linear else if cv > 0.3 then Exponential else Rolling
      else m)"

definition forecast ::
    "DataRow list \<Rightarrow> string \<Rightarrow> int \<Rightarrow> ForecastMethod \<Rightarrow> jsError + ForecastResult" where
  "forecast rows columnName periods m =
     (let values = extractNumericValues rows columnName
      in if length values < 5
         then Inr \<lparr>predictions = [], trend = ''insufficient data'',
                   forecastColumn = columnName, forecastMethod = Linear,
                   interpretationText =
                     ''Cannot generate forecast for \"'' @ columnName
                     @ ''\": insufficient data points (minimum 5 required, found ''
                     @ showNat (length values) @ '').''\<rparr>
         else
           let selectedMethod = selectMethod values m
           in (case (case selectedMethod of
                       Linear \<Rightarrow> Inr (linearForecast values periods)
                     | Exponential \<Rightarrow> exponentialForecast values periods 0.3
                     | Rolling \<Rightarrow> rollingForecast values periods None
                     | Auto \<Rightarrow> Inr (linearForecast values periods)) of
                 Inl e \<Rightarrow> Inl e
               | Inr result \<Rightarrow>
                   let lastActual = last values;
                       finalPredicted =
                         item (predictions result) (int (length (predictions result)) - 1)
                   in (case (if lastActual \<noteq> 0
                             then (case finalPredicted of
                                     None \<Rightarrow> Inl TypeError
                                   | Some p \<Rightarrow>
                                       Inr (((pointValue p - lastActual) / \<bar>lastActual\<bar>) * 100))
                             else Inr 0) of
                         Inl e \<Rightarrow> Inl e
                       | Inr changeFromCurrent \<Rightarrow>
                           Inr \<lparr>predictions = predictions result, trend = trend result,
                                forecastColumn = columnName, forecastMethod = selectedMethod,
                                interpretationText =
                                  generateForecastInterpretation columnName selectedMethod
                                    (predictions result) (trend result) changeFromCurrent\<rparr>)))"

text \<open>
  \<open>forecastAll\<close> pushes one forecast for each key of the first row with at least 5
  numeric values; an exception in one of them ends the loop.
\<close>

fun forecastColumns ::
    "DataRow list \<Rightarrow> int \<Rightarrow> string list \<Rightarrow> jsError + ForecastResult list" where
  "forecastColumns rows periods [] = Inr []"
| "forecastColumns rows periods (col # cols) =
     (if length (extractNumericValues rows col) \<ge> 5
      then (case forecast rows col periods Auto of
              Inl e \<Rightarrow> Inl e
            | Inr r \<Rightarrow>
                (case forecastColumns rows periods cols of
                   Inl e \<Rightarrow> Inl e
                 | Inr rs \<Rightarrow> Inr (r # rs)))
      else forecastColumns rows periods cols)"

definition forecastAll :: "DataRow list \<Rightarrow> int \<Rightarrow> jsError + ForecastResult list" where
  "forecastAll rows periods =
     (if length rows = 0 then Inr []
      else forecastColumns rows periods (map fst (hd rows)))"

fun stringIncludes :: "string \<Rightarrow> string \<Rightarrow> bool" where
  "stringIncludes [] sub = (sub = [])"
| "stringIncludes (c # cs) sub = (take (length sub) (c # cs) = sub \<or> stringIncludes cs sub)"

definition getForecastSummary :: "ForecastResult list \<Rightarrow> string" where
  "getForecastSummary forecasts =
     (if length forecasts = 0 then ''No columns have sufficient data for forecasting.''
      else
        let growing = filter (\<lambda>f. stringIncludes (trend f) ''increas'' \<or> stringIncludes (trend f) ''upward'') forecasts;
            declining = filter (\<lambda>f. stringIncludes (trend f) ''decreas'' \<or> stringIncludes (trend f) ''downward'') forecasts;
            stable = filter (\<lambda>f. stringIncludes (trend f) ''stable'') forecasts;
            parts =
              (if length growing > 0
               then [showNat (length growing) @ '' metric(s) forecasted to grow: ''
                     @ join '', '' (map forecastColumn growing)] else [])
              @ (if length declining > 0
                 then [showNat (length declining) @ '' metric(s) forecasted to decline: ''
                       @ join '', '' (map forecastColumn declining)] else [])
              @ (if length stable > 0
                 then [showNat (length stable) @ '' metric(s) expected to remain stable''] else [])
        in join ''. '' parts @ ''.'')"


section \<open>Dataset-level anomaly detection\<close>

text \<open>
  \<open>countColumns\<close> is the \<^verbatim>\<open>Map\<close> of anomaly counts per column, in insertion
  order; the explanation is built for a table with at least one row.
\<close>

definition countColumns :: "Anomaly list \<Rightarrow> (string \<times> nat) list" where
  "countColumns as =
     foldl (\<lambda>m a. AList.update (column a)
                     ((case map_of m (column a) of Some n \<Rightarrow> n | None \<Rightarrow> 0) + 1) m) [] as"

definition generateAnomalyExplanation :: "Anomaly list \<Rightarrow> string list \<Rightarrow> nat \<Rightarrow> string" where
  "generateAnomalyExplanation as affected totalRows =
     (if length as = 0
      then ''No significant anomalies detected in the dataset. Data values fall within expected ranges across all analyzed columns.''
      else
        let pct = percentText False (real (length as)) (real totalRows) 2;
            overview =
              [''Detected '' @ showNat (length as) @ '' anomalous data point(s) affecting ''
               @ showNat (length affected) @ '' column(s), representing '' @ pct
               @ ''% of the dataset.''];
            byType = (\<lambda>t. length (filter (\<lambda>a. anomalyType a = t) as));
            typeDescriptions =
              (if byType ZScore > 0 then [showNat (byType ZScore) @ '' statistical outlier(s)''] else [])
              @ (if byType IQR > 0 then [showNat (byType IQR) @ '' IQR-based anomaly(ies)''] else [])
              @ (if byType Spike > 0 then [showNat (byType Spike) @ '' sudden spike(s)''] else [])
              @ (if byType Drop > 0 then [showNat (byType Drop) @ '' sudden drop(s)''] else []);
            breakdown =
              (if length typeDescriptions > 0
               then [''Anomaly breakdown: '' @ join '', '' typeDescriptions @ ''.''] else []);
            sortedColumns = take 3 (sort_key (\<lambda>(col, n). - int n) (countColumns as));
            colDescriptions =
              map (\<lambda>(col, n). ''\"'' @ col @ ''\" ('' @ showNat n @ '')'') sortedColumns;
            mostAffected =
              (if length sortedColumns > 0
               then [''Most affected columns: '' @ join '', '' colDescriptions @ ''.''] else []);
            highSeverity = filter (\<lambda>a. score a > 0.8) as;
            severe =
              (if length highSeverity > 0
               then [showNat (length highSeverity)
                     @ '' high-severity anomaly(ies) detected that warrant immediate investigation.'']
               else [])
        in join '' '' (overview @ breakdown @ mostAffected @ severe))"

definition scanColumns :: "DataRow list \<Rightarrow> string list \<Rightarrow> Anomaly list \<times> string list" where
  "scanColumns rows columnNames =
     foldl (\<lambda>(allAnomalies, affected) col.
              if length (extractNumericValues rows col) \<ge> 10
              then
                let found = detectColumnAnomalies rows col
                in if length found > 0
                   then (allAnomalies @ found,
                         if col \<in> set affected then affected else affected @ [col])
                   else (allAnomalies, affected)
              else (allAnomalies, affected))
       ([], []) columnNames"

definition detectAllAnomalies :: "DataRow list \<Rightarrow> AnomalyResult" where
  "detectAllAnomalies rows =
     (if length rows = 0
      then \<lparr>anomalies = [], anomalyScore = 0, affectedColumns = [],
            explanation = ''No data available for anomaly detection.''\<rparr>
      else
        let columnNames = map fst (hd rows);
            (allAnomalies, affected) = scanColumns rows columnNames;
            sortedAnomalies = take 100 (sortByScore allAnomalies);
            sc = (if length sortedAnomalies > 0
                  then min (real (length sortedAnomalies) / real (length rows)) 1 else 0)
        in \<lparr>anomalies = sortedAnomalies, anomalyScore = sc, affectedColumns = affected,
             explanation = generateAnomalyExplanation sortedAnomalies affected (length rows)\<rparr>)"

record ColumnAnomalySummary =
  anomalyCount :: nat
  severity :: string
  topAnomalies :: "Anomaly list"

definition getColumnAnomalySummary :: "DataRow list \<Rightarrow> string \<Rightarrow> ColumnAnomalySummary" where
  "getColumnAnomalySummary rows columnName =
     (let found = detectColumnAnomalies rows columnName;
          maxScore = (if length found > 0
                      then foldl max (score (hd found)) (map score (tl found)) else 0);
          sev = (if maxScore > 0.8 then ''high''
                 else if maxScore > 0.5 then ''medium''
                 else if length found > 0 then ''low''
                 else ''none'')
      in \<lparr>anomalyCount = length found, severity = sev, topAnomalies = take 5 found\<rparr>)"

text \<open>An anomaly that points into a series: its index is a position of the series and its
  value is the element there.\<close>

definition inSeries :: "real list \<Rightarrow> Anomaly \<Rightarrow> bool" where
  "inSeries values a \<longleftrightarrow>
     rowIndex a < length values \<and> anomalyValue a = values ! rowIndex a"

section \<open>The response and the other value objects\<close>

text \<open>
  The records of \<^verbatim>\<open>types.ts\<close> that only the handlers outside this embedding fill
  (profile, statistics, trends, correlations, key insights) are declared for the shape
  of the response; their fields carry the record's initials where a name is taken.
\<close>

datatype ColumnType = Numeric | Categorical | Datetime | Boolean | Text

datatype scalar = NumberValue real | StringValue string | DateValue real

record ColumnProfile =
  cp_name :: string
  cp_type :: ColumnType
  cp_nullCount :: nat
  cp_totalCount :: nat
  cp_uniqueCount :: nat
  cp_min :: "scalar option"
  cp_max :: "scalar option"
  cp_mean :: "real option"
  cp_median :: "real option"
  cp_mode :: "scalar option"
  cp_stdDev :: "real option"
  cp_topValues :: "(scalar \<times> nat) list"

record DatasetProfile =
  dp_rowCount :: nat
  dp_columnCount :: nat
  dp_columns :: "ColumnProfile list"
  dp_memoryEstimate :: string
  dp_completeness :: real

record StatisticalSummary =
  ss_overview :: string
  ss_keyMetrics :: "(string \<times> scalar) list"
  ss_distributions :: "(string \<times> string \<times> string) list"
  ss_outliers :: "(string \<times> nat \<times> string) list"
  ss_correlationHighlights :: "string list"
  ss_narrative :: string

datatype TrendDirection = Increasing | Decreasing | Stable | Volatile

record TrendResult =
  tr_column :: string
  tr_direction :: TrendDirection
  tr_strength :: real
  tr_movingAverages :: "real list"
  tr_seasonality :: bool
  tr_seasonalPeriod :: "nat option"
  tr_shifts :: "(nat \<times> real \<times> string) list"
  tr_explanation :: string

datatype CorrelationKind = Pearson | CramersV

datatype CorrelationStrength = Strong | Moderate | Weak | NoCorrelation

record CorrelationPair =
  cr_column1 :: string
  cr_column2 :: string
  cr_coefficient :: real
  cr_kind :: CorrelationKind
  cr_strength :: CorrelationStrength

type_synonym CorrelationMatrix = "string \<rightharpoonup> (string \<rightharpoonup> real)"

record CorrelationResult =
  cr_matrix :: CorrelationMatrix
  cr_strongestRelations :: "CorrelationPair list"
  cr_explanation :: string

datatype InsightKind = Observation | Recommendation | Warning | Opportunity

datatype Importance = High | Medium | Low

record Insight =
  in_kind :: InsightKind
  in_category :: string
  in_title :: string
  in_description :: string
  in_importance :: Importance
  in_relatedColumns :: "string list"

datatype QueryIntent =
  Summary | Anomalies | Forecast | Trends | Correlation | Explain | Profile

record Insights =
  profile :: "DatasetProfile option"
  statistics :: "StatisticalSummary option"
  trends :: "TrendResult list option"
  anomalyResult :: "AnomalyResult option"
  forecasts :: "ForecastResult list option"
  correlations :: "CorrelationResult option"
  keyInsights :: "Insight list option"

definition noInsights :: Insights where
  "noInsights =
     \<lparr>profile = None, statistics = None, trends = None, anomalyResult = None,
      forecasts = None, correlations = None, keyInsights = None\<rparr>"

record InsightResponse =
  query :: string
  intent :: QueryIntent
  insights :: Insights
  textSummary :: string
  recommendedCharts :: "string list"
  executiveSummary :: "string option"
  recommendations :: "string list option"

section \<open>The query router\<close>

text \<open>
  \<open>toLowerCase\<close> on code units below 256. The regular expression of \<open>detectIntent\<close>,
  \<^verbatim>\<open>/column\s+["']?(\w+)["']?|["'](\w+)["']\s+column|(?:what|explain|analyze)\s+(?:is|about)?\s*["']?(\w+)["']?/i\<close>,
  is matched as \<^verbatim>\<open>String.prototype.match\<close> does: at the leftmost position where one
  of the three alternatives matches, the alternatives tried in order, each quantifier
  greedy with backtracking. \<open>alt1\<close>, \<open>alt2\<close> and \<open>alt3\<close> return the captured word of
  an alternative matched at the start of their argument.
\<close>

definition toLowerChar :: "char \<Rightarrow> char" where
  "toLowerChar c =
     (let n = (of_char c :: nat)
      in if (65 \<le> n \<and> n \<le> 90) \<or> (192 \<le> n \<and> n \<le> 222 \<and> n \<noteq> 215)
         then char_of (n + 32) else c)"

definition toLowerCase :: "string \<Rightarrow> string" where
  "toLowerCase s = map toLowerChar s"

definition isWordChar :: "char \<Rightarrow> bool" where
  "isWordChar c =
     (c \<in> set ''abcdefghijklmnopqrstuvwxyzABCDEFGHIJKLMNOPQRSTUVWXYZ0123456789_'')"

definition isQuote :: "char \<Rightarrow> bool" where
  "isQuote c = (c \<in> set [CHR 0x22, CHR 0x27])"

definition literalCI :: "string \<Rightarrow> string \<Rightarrow> string option" where
  "literalCI lit s =
     (if length lit \<le> length s \<and> toLowerCase (take (length lit) s) = lit
      then Some (drop (length lit) s) else None)"

definition wordTail :: "string \<Rightarrow> string option" where
  "wordTail s =
     (let t = (if s \<noteq> [] \<and> isQuote (hd s) then tl s else s);
          w = takeWhile isWordChar t
      in if w = [] then None else Some w)"

definition alt1 :: "string \<Rightarrow> string option" where
  "alt1 s =
     (case literalCI ''column'' s of
        None \<Rightarrow> None
      | Some r \<Rightarrow>
          if r \<noteq> [] \<and> isWhiteSpace (hd r) then wordTail (dropWhile isWhiteSpace r) else None)"

definition alt2 :: "string \<Rightarrow> string option" where
  "alt2 s =
     (if s \<noteq> [] \<and> isQuote (hd s)
      then
        let w = takeWhile isWordChar (tl s);
            r = dropWhile isWordChar (tl s)
        in if w \<noteq> [] \<and> r \<noteq> [] \<and> isQuote (hd r) \<and> tl r \<noteq> [] \<and> isWhiteSpace (hd (tl r))
              \<and> literalCI ''column'' (dropWhile isWhiteSpace (tl r)) \<noteq> None
           then Some w else None
      else None)"

definition alt3 :: "string \<Rightarrow> string option" where
  "alt3 s =
     (case (case literalCI ''what'' s of
              Some r \<Rightarrow> Some r
            | None \<Rightarrow> (case literalCI ''explain'' s of
                          Some r \<Rightarrow> Some r
                        | None \<Rightarrow> literalCI ''analyze'' s)) of
        None \<Rightarrow> None
      | Some r \<Rightarrow>
          if r \<noteq> [] \<and> isWhiteSpace (hd r)
          then
            let r1 = dropWhile isWhiteSpace r
            in (case (case literalCI ''is'' r1 of
                        Some rest \<Rightarrow> Some rest
                      | None \<Rightarrow> literalCI ''about'' r1) of
                  Some rest \<Rightarrow>
                    (case wordTail (dropWhile isWhiteSpace rest) of
                       Some w \<Rightarrow> Some w
                     | None \<Rightarrow> wordTail r1)
                | None \<Rightarrow> wordTail r1)
          else None)"

fun columnMatch :: "string \<Rightarrow> string option" where
  "columnMatch [] = None"
| "columnMatch (c # cs) =
     (case alt1 (c # cs) of
        Some w \<Rightarrow> Some w
      | None \<Rightarrow>
          (case alt2 (c # cs) of
             Some w \<Rightarrow> Some w
           | None \<Rightarrow>
               (case alt3 (c # cs) of
                  Some w \<Rightarrow> Some w
                | None \<Rightarrow> columnMatch cs)))"

definition detectIntent :: "string \<Rightarrow> QueryIntent \<times> string option" where
  "detectIntent q =
     (let lowerQuery = toLowerCase q;
          targetColumn = columnMatch q;
          has = stringIncludes lowerQuery
      in if has ''profile'' \<or> has ''overview'' \<or> has ''structure'' then (Profile, targetColumn)
         else if has ''summar'' \<or> has ''describe'' \<or> has ''tell me about''
           then (Summary, targetColumn)
         else if has ''anomal'' \<or> has ''outlier'' \<or> has ''unusual'' \<or> has ''strange''
           then (Anomalies, targetColumn)
         else if has ''forecast'' \<or> has ''predict'' \<or> has ''future'' \<or> has ''project''
           then (Forecast, targetColumn)
         else if has ''trend'' \<or> has ''pattern'' \<or> has ''over time'' \<or> has ''direction''
           then (Trends, targetColumn)
         else if has ''correlat'' \<or> has ''relation'' \<or> has ''connect'' \<or> has ''affect''
           then (Correlation, targetColumn)
         else if has ''explain'' \<or> has ''what is'' \<or> has ''happening''
           then (Explain, targetColumn)
         else (Summary, targetColumn))"

text \<open>
  A target column is truthy when it is a non-empty string. \<open>handleForecastQuery\<close>
  calls \<open>forecast\<close> and \<open>forecastAll\<close> with their default 7 periods and method
  \<open>auto\<close>.
\<close>

definition handleAnomalyQuery :: "DataRow list \<Rightarrow> string option \<Rightarrow> InsightResponse" where
  "handleAnomalyQuery rows targetColumn =
     (case (case targetColumn of Some t \<Rightarrow> if t \<noteq> [] then Some t else None | None \<Rightarrow> None) of
        Some t \<Rightarrow>
          let summary = getColumnAnomalySummary rows t
          in \<lparr>query = ''Anomalies in '' @ t, intent = Anomalies,
               insights = noInsights\<lparr>anomalyResult := Some
                 \<lparr>anomalies = topAnomalies summary,
                  anomalyScore = (if length (topAnomalies summary) > 0
                                  then score (hd (topAnomalies summary)) else 0),
                  affectedColumns = [t],
                  explanation = ''Found '' @ showNat (anomalyCount summary) @ '' anomalies in \"''
                    @ t @ ''\" with '' @ severity summary @ '' severity.''\<rparr>\<rparr>,
               textSummary = ''Anomaly analysis for \"'' @ t @ ''\": ''
                 @ showNat (anomalyCount summary) @ '' anomalies detected (severity: ''
                 @ severity summary @ '').'',
               recommendedCharts = [''scatter'', ''line'', ''box''],
               executiveSummary = None, recommendations = None\<rparr>
      | None \<Rightarrow>
          let found = detectAllAnomalies rows
          in \<lparr>query = ''Find anomalies'', intent = Anomalies,
               insights = noInsights\<lparr>anomalyResult := Some found\<rparr>,
               textSummary = explanation found,
               recommendedCharts = [''scatter'', ''line'', ''heatmap''],
               executiveSummary = None, recommendations = None\<rparr>)"

definition handleForecastQuery ::
    "DataRow list \<Rightarrow> string option \<Rightarrow> jsError + InsightResponse" where
  "handleForecastQuery rows targetColumn =
     (case (case targetColumn of Some t \<Rightarrow> if t \<noteq> [] then Some t else None | None \<Rightarrow> None) of
        Some t \<Rightarrow>
          (case forecast rows t 7 Auto of
             Inl e \<Rightarrow> Inl e
           | Inr result \<Rightarrow>
               Inr \<lparr>query = ''Forecast '' @ t, intent = Forecast,
                    insights = noInsights\<lparr>forecasts := Some [result]\<rparr>,
                    textSummary = interpretationText result,
                    recommendedCharts = [''line'', ''area''],
                    executiveSummary = None, recommendations = None\<rparr>)
      | None \<Rightarrow>
          (case forecastAll rows 7 of
             Inl e \<Rightarrow> Inl e
           | Inr fs \<Rightarrow>
               Inr \<lparr>query = ''Generate forecasts'', intent = Forecast,
                    insights = noInsights\<lparr>forecasts := Some fs\<rparr>,
                    textSummary = getForecastSummary fs,
                    recommendedCharts = [''line'', ''area''],
                    executiveSummary = None, recommendations = None\<rparr>))"

text \<open>
  \<open>analyze\<close> takes the query and the dataset reference, \<open>None\<close> for \<open>null\<close> or
  \<open>undefined\<close>. Its promise resolves with a response or rejects with an exception. The
  profile, summary, trend, correlation and explain handlers lie outside this embedding:
  for their intents the outcome is the call itself, \<open>Delegated\<close> to the handler with
  the target column it receives.
\<close>

datatype handlerCall =
    HandleProfileQuery
  | HandleSummaryQuery "string option"
  | HandleTrendQuery "string option"
  | HandleCorrelationQuery "string option"
  | HandleExplainQuery "string option"

datatype outcome = Resolved InsightResponse | Rejected jsError | Delegated handlerCall

definition noDataResponse :: "string \<Rightarrow> InsightResponse" where
  "noDataResponse q =
     \<lparr>query = q, intent = Summary, insights = noInsights,
      textSummary = ''No data provided for analysis. Please provide a valid dataset.'',
      recommendedCharts = [], executiveSummary = None, recommendations = None\<rparr>"

definition analyze :: "string \<Rightarrow> DataRow list option \<Rightarrow> outcome" where
  "analyze q dataset =
     (case dataset of
        None \<Rightarrow> Resolved (noDataResponse q)
      | Some rows \<Rightarrow>
          if length rows = 0 then Resolved (noDataResponse q)
          else
            let (intent, targetColumn) = detectIntent q
            in (case intent of
                  Profile \<Rightarrow> Delegated HandleProfileQuery
                | Summary \<Rightarrow> Delegated (HandleSummaryQuery targetColumn)
                | Anomalies \<Rightarrow> Resolved (handleAnomalyQuery rows targetColumn)
                | Forecast \<Rightarrow>
                    (case handleForecastQuery rows targetColumn of
                       Inl e \<Rightarrow> Rejected e
                     | Inr response \<Rightarrow> Resolved response)
                | Trends \<Rightarrow> Delegated (HandleTrendQuery targetColumn)
                | Correlation \<Rightarrow> Delegated (HandleCorrelationQuery targetColumn)
                | Explain \<Rightarrow> Delegated (HandleExplainQuery targetColumn)))"

section \<open>Column types and the correlation matrix\<close>















section \<open>Sample tables\<close>



definition jumpRows :: "DataRow list" where
  "jumpRows =
     [[(''load'', CString ''n/a'')]] @ replicate 9 [(''load'', CNumber (Finite 0))]
     @ [[(''load'', CNumber (Finite 10))]]"


section \<open>Properties\<close>

subsection \<open>The 50th percentile\<close>




subsection \<open>Means and deviations\<close>









subsection \<open>The detectors on a constant series\<close>




subsection \<open>Anomalies point into the numeric series\<close>

lemma foldl_mergeAnomaly_values:
  "set (map snd (foldl mergeAnomaly m xs)) \<subseteq> set (map snd m) \<union> set xs"
proof (induction xs arbitrary: m)
  case Nil
  then show ?case by simp
next
  case (Cons a xs)
  have upd: "set (map snd (AList.update k v al)) \<subseteq> insert v (set (map snd al))"
    for k :: nat and v :: Anomaly and al
    by (induction al) auto
  have "set (map snd (mergeAnomaly m a)) \<subseteq> insert a (set (map snd m))"
    using upd [of "rowIndex a" a m]
    by (auto simp add: mergeAnomaly_def Let_def split: option.splits)
  with Cons.IH [of "mergeAnomaly m a"] show ?case by auto
qed

lemma in_concat_enumerate:
  assumes "a \<in> set (concat (map (\<lambda>(index, v). g index v) (enumerate 0 values)))"
  obtains i where "i < length values" "a \<in> set (g i (values ! i))"
  using assms by (auto simp add: in_set_enumerate_eq)

lemma zScoreStep_point:
  "a \<in> set (zScoreStep col t avg std i v) \<Longrightarrow> rowIndex a = i \<and> anomalyValue a = v"
  by (simp add: zScoreStep_def Let_def split: if_splits)

lemma iqrStep_point:
  "a \<in> set (iqrStep col iqr lo up i v) \<Longrightarrow> rowIndex a = i \<and> anomalyValue a = v"
  by (simp add: iqrStep_def Let_def split: if_splits)

lemma rollingStep_point:
  "a \<in> set (rollingStep values col w t i) \<Longrightarrow> rowIndex a = i \<and> anomalyValue a = values ! i"
  by (simp add: rollingStep_def Let_def split: if_splits)

lemma detectZScoreAnomalies_inSeries:
  assumes "a \<in> set (detectZScoreAnomalies values col t)"
  shows "inSeries values a"
proof -
  from assms have "a \<in> set (concat (map
      (\<lambda>(index, v). zScoreStep col t (mean values) (standardDeviation values) index v)
      (enumerate 0 values)))"
    by (simp add: detectZScoreAnomalies_def Let_def split: if_splits)
  then obtain i where "i < length values"
      "a \<in> set (zScoreStep col t (mean values) (standardDeviation values) i (values ! i))"
    by (rule in_concat_enumerate)
  then show ?thesis
    using zScoreStep_point by (simp add: inSeries_def)
qed

lemma detectIQRAnomalies_inSeries:
  assumes "a \<in> set (detectIQRAnomalies values col m)"
  shows "inSeries values a"
proof -
  from assms obtain iqr lo up i v where
      "(i, v) \<in> set (enumerate 0 values)" "a \<in> set (iqrStep col iqr lo up i v)"
    by (auto simp add: detectIQRAnomalies_def Let_def split: if_splits option.splits)
  then show ?thesis
    using iqrStep_point by (auto simp add: inSeries_def in_set_enumerate_eq)
qed

lemma detectRollingAnomalies_inSeries:
  assumes "a \<in> set (detectRollingAnomalies values col w t)"
  shows "inSeries values a"
proof -
  from assms obtain i where "i < length values" "a \<in> set (rollingStep values col w t i)"
    by (auto simp add: detectRollingAnomalies_def split: if_splits)
  then show ?thesis
    using rollingStep_point by (simp add: inSeries_def)
qed

lemma detectColumnAnomalies_inSeries:
  assumes "a \<in> set (detectColumnAnomalies rows col)"
  shows "inSeries (extractNumericValues rows col) a"
proof -
  let ?vs = "extractNumericValues rows col"
  let ?all = "detectZScoreAnomalies ?vs col 3 @ detectIQRAnomalies ?vs col 1.5
              @ detectRollingAnomalies ?vs col 5 2"
  from assms have "a \<in> set (map snd (foldl mergeAnomaly [] ?all))"
    by (simp add: detectColumnAnomalies_def Let_def sortByScore_def split: if_splits)
  with foldl_mergeAnomaly_values [of "[]" ?all] have "a \<in> set ?all" by auto
  then show ?thesis
    using detectZScoreAnomalies_inSeries detectIQRAnomalies_inSeries
      detectRollingAnomalies_inSeries by auto
qed

subsection \<open>Forecasts: number of points and confidence bounds\<close>








subsection \<open>The sample tables, evaluated\<close>





lemma jumpRows_load: "extractNumericValues jumpRows ''load'' = [0, 0, 0, 0, 0, 0, 0, 0, 0, 10]"
  by code_simp

lemma jump_mean: "mean [0, 0, 0, 0, 0, 0, 0, 0, 0, 10] = 1"
  by (simp add: mean_def)

lemma jump_sort:
  "sort [0, 0, 0, 0, 0, 0, 0, 0, 0, 10::real] = [0, 0, 0, 0, 0, 0, 0, 0, 0, 10]"
  by (simp add: sorted_sort_id)

lemma jump_std: "standardDeviation [0, 0, 0, 0, 0, 0, 0, 0, 0, 10] = 3"
proof -
  have s: "sqrt 9 = 3"
    using real_sqrt_abs [of 3] by simp
  show ?thesis
    by (simp add: standardDeviation_def Let_def jump_mean) (simp add: mean_def s)
qed

lemma jump_zscore: "detectZScoreAnomalies [0, 0, 0, 0, 0, 0, 0, 0, 0, 10] ''load'' 3 = []"
  by (simp add: detectZScoreAnomalies_def zScoreStep_def Let_def jump_mean jump_std zScore_def
      enumerate_eq_zip upt_rec)

lemma jump_quartiles:
  "percentile [0, 0, 0, 0, 0, 0, 0, 0, 0, 10] 25 = Some 0"
  "percentile [0, 0, 0, 0, 0, 0, 0, 0, 0, 10] 75 = Some 0"
  by (simp_all add: percentile_def Let_def jump_sort item_def)

lemma jump_iqr:
  "detectIQRAnomalies [0, 0, 0, 0, 0, 0, 0, 0, 0, 10] ''load'' m =
     [\<lparr>rowIndex = 9, column = ''load'', anomalyValue = 10,
       expectedRange = \<lparr>range_min = 0, range_max = 0\<rparr>, score = 1, anomalyType = IQR\<rparr>]"
  by (simp add: detectIQRAnomalies_def iqrStep_def Let_def quartiles_def jump_quartiles
      enumerate_eq_zip upt_rec)

lemma jump_rolling: "detectRollingAnomalies [0, 0, 0, 0, 0, 0, 0, 0, 0, 10] ''load'' 5 2 = []"
  by (simp add: detectRollingAnomalies_def rollingStep_def Let_def upt_rec
      standardDeviation_def mean_def)

lemma jump_anomalies:
  "detectColumnAnomalies jumpRows ''load'' =
     [\<lparr>rowIndex = 9, column = ''load'', anomalyValue = 10,
       expectedRange = \<lparr>range_min = 0, range_max = 0\<rparr>, score = 1, anomalyType = IQR\<rparr>]"
  by (simp add: detectColumnAnomalies_def Let_def jumpRows_load jump_zscore jump_iqr
      jump_rolling mergeAnomaly_def sortByScore_def)

subsection \<open>Forecasts never fail for a positive number of periods\<close>



text \<open>
  Without a positive number of periods no point is predicted, and the reads of
  \<^verbatim>\<open>predictions[0].value\<close> (rolling) and \<^verbatim>\<open>finalPredicted.value\<close> (after any
  method, when the last actual value is not 0) throw a \<open>TypeError\<close>.
\<close>

lemma forecast_nonpositive_periods:
  assumes "periods \<le> 0" "5 \<le> length (extractNumericValues rows col)"
  shows "forecast rows col periods Rolling = Inl TypeError"
    and "last (extractNumericValues rows col) \<noteq> 0
         \<Longrightarrow> forecast rows col periods Linear = Inl TypeError"
proof -
  have e: "[1..periods] = []" using assms(1) by simp
  show "forecast rows col periods Rolling = Inl TypeError"
    using assms(2)
    by (simp add: forecast_def selectMethod_def rollingForecast_def Let_def e item_def)
  show "forecast rows col periods Linear = Inl TypeError"
    if "last (extractNumericValues rows col) \<noteq> 0"
    using assms(2) that
    by (simp add: forecast_def selectMethod_def linearForecast_def Let_def e item_def)
qed

subsection \<open>Intents of the sample queries\<close>




subsection \<open>The correlation matrix, entry by entry\<close>













section \<open>The claims\<close>




text \<open>
  C3 (the code departs from the claim). \<open>extractNumericValues\<close> applies \<open>Number\<close> to
  each cell and keeps the finite results. An absent cell and an unparsable string give
  \<open>NaN\<close> and are dropped, but \<open>Number(null)\<close> and \<open>Number('''')\<close> are 0: a null cell
  and an empty-string cell are not dropped, they enter the series as the value 0. On
  the column below (null, empty string, undefined, absent key, unparsable text, 5) the
  series has three elements, not one.
\<close>

theorem extractNumericValues_null_and_empty_are_zero:
  "extractNumericValues
     [[(''x'', CNull)], [(''x'', CString '''')], [(''x'', CUndefined)], [],
      [(''x'', CString ''n/a'')], [(''x'', CNumber (Finite 5))]] ''x''
   = [0, 0, 5]"
  by code_simp











text \<open>
  C9. For every query, \<open>analyze\<close> on the empty dataset returns at once the response
  with the query itself, the summary intent, an \<open>insights\<close> object without any field,
  the text that no data was provided, no recommended chart, and neither an executive
  summary nor recommendations.
\<close>

theorem analyze_empty_dataset:
  "analyze q (Some []) =
     Resolved \<lparr>query = q, intent = Summary,
               insights = \<lparr>profile = None, statistics = None, trends = None,
                           anomalyResult = None, forecasts = None, correlations = None,
                           keyInsights = None\<rparr>,
               textSummary = ''No data provided for analysis. Please provide a valid dataset.'',
               recommendedCharts = [], executiveSummary = None, recommendations = None\<rparr>"
  by (simp add: analyze_def noDataResponse_def noInsights_def)

theorem analyze_empty_dataset_witness:
  "textSummary (case analyze ''forecast revenue'' (Some []) of Resolved response \<Rightarrow> response)
     = ''No data provided for analysis. Please provide a valid dataset.''
   \<and> analyze ''forecast revenue'' (Some []) = Resolved (noDataResponse ''forecast revenue'')"
  using analyze_empty_dataset [of "''forecast revenue''"]
  by (simp add: noDataResponse_def noInsights_def)

text \<open>
  C10. The \<open>rowIndex\<close> of every anomaly that \<open>detectColumnAnomalies\<close> returns is a
  position in the filtered numeric series of the column (below the number of cells that
  coerce to a finite number), and the anomaly's value is the element of that series at
  this position. It is not the position of the row in the table: in \<open>jumpRows\<close> the
  flagged cell sits in row 10 and is reported with \<open>rowIndex\<close> 9, the first row having
  been dropped.
\<close>

theorem anomaly_rowIndex_in_series:
  assumes "a \<in> set (detectColumnAnomalies rows columnName)"
  shows "rowIndex a < length (extractNumericValues rows columnName)
         \<and> anomalyValue a = extractNumericValues rows columnName ! rowIndex a"
  using detectColumnAnomalies_inSeries [OF assms] by (simp add: inSeries_def)

theorem anomaly_rowIndex_in_series_witness:
  "detectColumnAnomalies jumpRows ''load'' =
     [\<lparr>rowIndex = 9, column = ''load'', anomalyValue = 10,
       expectedRange = \<lparr>range_min = 0, range_max = 0\<rparr>, score = 1, anomalyType = IQR\<rparr>]
   \<and> 9 < length (extractNumericValues jumpRows ''load'')
   \<and> extractNumericValues jumpRows ''load'' ! 9 = 10
   \<and> cellOf (jumpRows ! 10) ''load'' = CNumber (Finite 10)
   \<and> cellOf (jumpRows ! 9) ''load'' = CNumber (Finite 0)"
proof -
  let ?a = "\<lparr>rowIndex = 9, column = ''load'', anomalyValue = 10,
       expectedRange = \<lparr>range_min = 0, range_max = 0\<rparr>, score = 1, anomalyType = IQR\<rparr>"
  have mem: "?a \<in> set (detectColumnAnomalies jumpRows ''load'')"
    by (simp add: jump_anomalies)
  have cells: "cellOf (jumpRows ! 10) ''load'' = CNumber (Finite 10)"
      "cellOf (jumpRows ! 9) ''load'' = CNumber (Finite 0)"
    by code_simp+
  from anomaly_rowIndex_in_series [OF mem] show ?thesis
    by (simp add: jump_anomalies cells)
qed

end
